theory Spec2Isabelle
  imports Main "HOL-Library.Word"
begin

section \<open>Strings\<close>

text \<open>
  A JavaScript string is modelled as a \<^typ>\<open>string\<close>: one \<^typ>\<open>char\<close> per code unit,
  so the strings of the model are those whose code units are below 256.
\<close>

abbreviation backslash :: char where "backslash \<equiv> CHR 0x5C"
abbreviation dquote :: char where "dquote \<equiv> CHR 0x22"
abbreviation backtick :: char where "backtick \<equiv> CHR 0x60"
abbreviation dollar :: char where "dollar \<equiv> CHR 0x24"
abbreviation newline :: char where "newline \<equiv> CHR 0x0A"

text \<open>
  \<^verbatim>\<open>str.replace(/c/g, r)\<close> for a pattern that matches the single character \<open>c\<close> and a
  replacement \<open>r\<close> without replacement patterns: every occurrence of \<open>c\<close>, left to
  right, becomes \<open>r\<close>.
\<close>

definition replace_all :: "char \<Rightarrow> string \<Rightarrow> string \<Rightarrow> string" where
  "replace_all c r str = concat (map (\<lambda>x. if x = c then r else [x]) str)"

text \<open>
  \<^verbatim>\<open>escapeShellValue\<close> (get.mjs, lines 97-107) after its \<^verbatim>\<open>String(value)\<close>: the five
  replacements, in the order of the source.
\<close>

definition escapeShellValue :: "string \<Rightarrow> string" where
  "escapeShellValue str =
     replace_all newline [backslash, CHR ''n'']
       (replace_all dollar [backslash, dollar]
         (replace_all backtick [backslash, backtick]
           (replace_all dquote [backslash, dquote]
             (replace_all backslash [backslash, backslash] str))))"

text \<open>What the five replacements do to one character of the input.\<close>

definition escape_char :: "char \<Rightarrow> string" where
  "escape_char c =
     (if c = backslash then [backslash, backslash]
      else if c = dquote then [backslash, dquote]
      else if c = backtick then [backslash, backtick]
      else if c = dollar then [backslash, dollar]
      else if c = newline then [backslash, CHR ''n'']
      else [c])"

text \<open>
  A text is escaped when it reads, left to right, as a sequence of characters other than
  the five special ones and of two-character escapes: a backslash followed by a
  backslash, a double quote, a backtick, a dollar sign or the letter n.
\<close>

fun escaped :: "string \<Rightarrow> bool" where
  "escaped [] = True"
| "escaped [c] = (c \<noteq> backslash \<and> c \<noteq> dquote \<and> c \<noteq> backtick \<and> c \<noteq> dollar \<and> c \<noteq> newline)"
| "escaped (c # d # cs) =
     (if c = backslash
      then (d = backslash \<or> d = dquote \<or> d = backtick \<or> d = dollar \<or> d = CHR ''n'') \<and> escaped cs
      else c \<noteq> dquote \<and> c \<noteq> backtick \<and> c \<noteq> dollar \<and> c \<noteq> newline \<and> escaped (d # cs))"

text \<open>
  \<^verbatim>\<open>propertyToVarName\<close> (lines 109-116): every character outside \<^verbatim>\<open>[a-zA-Z0-9_]\<close>
  becomes an underscore, then \<^verbatim>\<open>toUpperCase\<close>. After the replacement only ASCII letters,
  digits and underscores are left, and on those \<^verbatim>\<open>toUpperCase\<close> maps a-z to A-Z and
  keeps the rest.
\<close>

definition is_lower :: "char \<Rightarrow> bool" where
  "is_lower c = (97 \<le> (of_char c :: nat) \<and> (of_char c :: nat) \<le> 122)"

definition is_upper :: "char \<Rightarrow> bool" where
  "is_upper c = (65 \<le> (of_char c :: nat) \<and> (of_char c :: nat) \<le> 90)"

definition is_digit :: "char \<Rightarrow> bool" where
  "is_digit c = (48 \<le> (of_char c :: nat) \<and> (of_char c :: nat) \<le> 57)"

definition is_word_char :: "char \<Rightarrow> bool" where
  "is_word_char c = (is_lower c \<or> is_upper c \<or> is_digit c \<or> c = CHR ''_'')"

definition upper_char :: "char \<Rightarrow> char" where
  "upper_char c = (if is_lower c then char_of ((of_char c :: nat) - 32) else c)"

definition toUpperCase :: "string \<Rightarrow> string" where
  "toUpperCase s = map upper_char s"

definition propertyToVarName :: "string \<Rightarrow> string" where
  "propertyToVarName property =
     toUpperCase (map (\<lambda>c. if is_word_char c then c else CHR ''_'') property)"

section \<open>Query input\<close>

text \<open>\<^verbatim>\<open>String.prototype.indexOf\<close> for a one-character needle: the first position, or -1.\<close>

fun indexOf :: "char \<Rightarrow> string \<Rightarrow> int" where
  "indexOf c [] = - 1"
| "indexOf c (x # xs) =
     (if x = c then 0 else (let i = indexOf c xs in if i = - 1 then - 1 else i + 1))"

text \<open>
  \<^verbatim>\<open>String.prototype.split\<close> on a one-character separator: the empty string gives one
  empty piece, and a separator at the end gives a last empty piece.
\<close>

fun split_on :: "char \<Rightarrow> string \<Rightarrow> string list" where
  "split_on c [] = [[]]"
| "split_on c (x # xs) =
     (if x = c then [] # split_on c xs
      else (case split_on c xs of [] \<Rightarrow> [[x]] | w # ws \<Rightarrow> (x # w) # ws))"

text \<open>
  \<^verbatim>\<open>String.prototype.trim\<close> removes white space and line terminators at both ends;
  among the code units below 256 these are tab, line feed, vertical tab, form feed,
  carriage return, space and no-break space.
\<close>

definition is_space :: "char \<Rightarrow> bool" where
  "is_space c = (c = CHR 0x09 \<or> c = CHR 0x0A \<or> c = CHR 0x0B \<or> c = CHR 0x0C
     \<or> c = CHR 0x0D \<or> c = CHR 0x20 \<or> c = CHR 0xA0)"

definition trim :: "string \<Rightarrow> string" where
  "trim s = rev (dropWhile is_space (rev (dropWhile is_space s)))"

text \<open>
  Lines 140-152: the query argument of named mode. With a colon, the name is what
  precedes the first colon and the properties are the pieces of the rest; without one,
  \<^verbatim>\<open>properties\<close> is \<^verbatim>\<open>null\<close>.
\<close>

definition parse_named_query :: "string \<Rightarrow> string \<times> string list option" where
  "parse_named_query queryInput =
     (let colonIndex = indexOf CHR '':'' queryInput in
      if colonIndex \<noteq> - 1
      then (take (nat colonIndex) queryInput,
            Some (filter (\<lambda>p. length p > 0)
                    (map trim (split_on CHR '','' (drop (nat (colonIndex + 1)) queryInput)))))
      else (queryInput, None))"

section \<open>JavaScript values\<close>

text \<open>
  The values the program handles: JSON data from the store, \<^verbatim>\<open>undefined\<close>, and what a
  property lookup on a plain object can find on \<^verbatim>\<open>Object.prototype\<close>, a built-in
  function (by its name) or \<^verbatim>\<open>Object.prototype\<close> itself. A number is carried as the text
  that \<^verbatim>\<open>Number.prototype.toString\<close> gives it, which is what \<^verbatim>\<open>String\<close> and
  \<^verbatim>\<open>JSON.stringify\<close> print for a finite number. An object is the list of its own
  enumerable fields, in the order \<^verbatim>\<open>Object.keys\<close> lists them.
\<close>

datatype jsval =
    JUndefined
  | JNull
  | JBool bool
  | JNum string
  | JStr string
  | JArr "jsval list"
  | JObj "(string \<times> jsval) list"
  | JNative string
  | JObjectPrototype

datatype error = TypeError | Thrown string

text \<open>
  The members of \<^verbatim>\<open>Object.prototype\<close>, which every plain object inherits. Read through
  an object, \<^verbatim>\<open>__proto__\<close> gives the object's prototype, \<^verbatim>\<open>constructor\<close> the function
  \<^verbatim>\<open>Object\<close>, and the others the built-in function of that name.
\<close>

definition object_prototype_functions :: "string list" where
  "object_prototype_functions =
     [''__defineGetter__'', ''__defineSetter__'', ''hasOwnProperty'', ''__lookupGetter__'',
      ''__lookupSetter__'', ''isPrototypeOf'', ''propertyIsEnumerable'', ''toString'',
      ''valueOf'', ''toLocaleString'']"

definition object_prototype_get :: "string \<Rightarrow> jsval" where
  "object_prototype_get p =
     (if p = ''__proto__'' then JObjectPrototype
      else if p = ''constructor'' then JNative ''Object''
      else if p \<in> set object_prototype_functions then JNative p
      else JUndefined)"

text \<open>
  \<^verbatim>\<open>value[p]\<close>. On \<^verbatim>\<open>null\<close> and \<^verbatim>\<open>undefined\<close> it throws a TypeError. On a plain object
  it gives the own field, and otherwise what \<^verbatim>\<open>Object.prototype\<close> has under that name.
  What a string, a number, a boolean, an array or a built-in has under a name is left to
  the parameter \<open>builtin_get\<close>.
\<close>

definition js_get :: "(jsval \<Rightarrow> string \<Rightarrow> jsval) \<Rightarrow> jsval \<Rightarrow> string \<Rightarrow> error + jsval" where
  "js_get builtin_get v p =
     (case v of
        JUndefined \<Rightarrow> Inl TypeError
      | JNull \<Rightarrow> Inl TypeError
      | JObj fs \<Rightarrow> (case map_of fs p of Some x \<Rightarrow> Inr x | None \<Rightarrow> Inr (object_prototype_get p))
      | _ \<Rightarrow> Inr (builtin_get v p))"

text \<open>
  \<^verbatim>\<open>Object.keys(value)[0]\<close>: the first own enumerable key, if there is one. A non-empty
  string or array has the key 0 first; numbers and booleans have no keys.
\<close>

definition first_key :: "jsval \<Rightarrow> error + string option" where
  "first_key v =
     (case v of
        JUndefined \<Rightarrow> Inl TypeError
      | JNull \<Rightarrow> Inl TypeError
      | JObj fs \<Rightarrow> Inr (case fs of [] \<Rightarrow> None | (k, _) # _ \<Rightarrow> Some k)
      | JStr s \<Rightarrow> Inr (if s = [] then None else Some ''0'')
      | JArr xs \<Rightarrow> Inr (if xs = [] then None else Some ''0'')
      | _ \<Rightarrow> Inr None)"

text \<open>
  \<^verbatim>\<open>String(value)\<close>; \<open>None\<close> is the TypeError of a conversion that finds no primitive.
  An array joins the texts of its elements with commas, \<^verbatim>\<open>null\<close> and \<^verbatim>\<open>undefined\<close>
  elements giving the empty text. A plain object gives \<^verbatim>\<open>[object Object]\<close> through the
  inherited \<^verbatim>\<open>toString\<close>; when it has a field of its own named \<^verbatim>\<open>toString\<close>, that field
  is not callable, the inherited \<^verbatim>\<open>valueOf\<close> (or a field of that name) gives no primitive
  either, and the conversion throws.
\<close>

fun js_String :: "jsval \<Rightarrow> string option"
  and js_join :: "jsval list \<Rightarrow> string option" where
  "js_String JUndefined = Some ''undefined''"
| "js_String JNull = Some ''null''"
| "js_String (JBool b) = Some (if b then ''true'' else ''false'')"
| "js_String (JNum n) = Some n"
| "js_String (JStr s) = Some s"
| "js_String (JArr xs) = js_join xs"
| "js_String (JObj fs) =
     (if ''toString'' \<in> fst ` set fs then None else Some ''[object Object]'')"
| "js_String (JNative n) = Some (''function '' @ n @ ''() { [native code] }'')"
| "js_String JObjectPrototype = Some ''[object Object]''"
| "js_join [] = Some []"
| "js_join (x # xs) =
     (case (if x = JNull \<or> x = JUndefined then Some [] else js_String x) of
        None \<Rightarrow> None
      | Some a \<Rightarrow>
          (if xs = [] then Some a
           else (case js_join xs of None \<Rightarrow> None | Some b \<Rightarrow> Some (a @ '','' @ b))))"

text \<open>
  \<^verbatim>\<open>JSON.stringify\<close> without indentation. A string is quoted, with the double quote,
  the backslash and the control characters escaped.
\<close>

definition hex_digit :: "nat \<Rightarrow> char" where
  "hex_digit n = ''0123456789abcdef'' ! (n mod 16)"

definition json_quote_char :: "char \<Rightarrow> string" where
  "json_quote_char c =
     (if c = dquote then [backslash, dquote]
      else if c = backslash then [backslash, backslash]
      else if c = CHR 0x08 then [backslash, CHR ''b'']
      else if c = CHR 0x09 then [backslash, CHR ''t'']
      else if c = CHR 0x0A then [backslash, CHR ''n'']
      else if c = CHR 0x0C then [backslash, CHR ''f'']
      else if c = CHR 0x0D then [backslash, CHR ''r'']
      else if (of_char c :: nat) < 32
      then [backslash, CHR ''u'', CHR ''0'', CHR ''0'',
            hex_digit ((of_char c :: nat) div 16), hex_digit (of_char c)]
      else [c])"

definition json_quote :: "string \<Rightarrow> string" where
  "json_quote s = [dquote] @ concat (map json_quote_char s) @ [dquote]"

fun join_with :: "string \<Rightarrow> string list \<Rightarrow> string" where
  "join_with sep [] = []"
| "join_with sep [x] = x"
| "join_with sep (x # y # ys) = x @ sep @ join_with sep (y # ys)"

text \<open>
  \<open>None\<close> is the \<^verbatim>\<open>undefined\<close> that \<^verbatim>\<open>JSON.stringify\<close> returns for \<^verbatim>\<open>undefined\<close> and
  for a function. In an array such an element is written \<^verbatim>\<open>null\<close>; in an object the
  field is left out.
\<close>

fun json_stringify :: "jsval \<Rightarrow> string option"
  and json_elems :: "jsval list \<Rightarrow> string list"
  and json_members :: "(string \<times> jsval) list \<Rightarrow> string list" where
  "json_stringify JUndefined = None"
| "json_stringify (JNative n) = None"
| "json_stringify JNull = Some ''null''"
| "json_stringify (JBool b) = Some (if b then ''true'' else ''false'')"
| "json_stringify (JNum n) = Some n"
| "json_stringify (JStr s) = Some (json_quote s)"
| "json_stringify (JArr xs) = Some (''['' @ join_with '','' (json_elems xs) @ '']'')"
| "json_stringify (JObj fs) = Some (''{'' @ join_with '','' (json_members fs) @ ''}'')"
| "json_stringify JObjectPrototype = Some ''{}''"
| "json_elems [] = []"
| "json_elems (x # xs) =
     (case json_stringify x of None \<Rightarrow> ''null'' | Some t \<Rightarrow> t) # json_elems xs"
| "json_members [] = []"
| "json_members ((k, v) # fs) =
     (case json_stringify v of
        None \<Rightarrow> json_members fs
      | Some t \<Rightarrow> (json_quote k @ '':'' @ t) # json_members fs)"

text \<open>\<^verbatim>\<open>console.log(JSON.stringify(v))\<close> prints \<^verbatim>\<open>undefined\<close> when there is no text.\<close>

definition stringify_text :: "jsval \<Rightarrow> string" where
  "stringify_text v = (case json_stringify v of None \<Rightarrow> ''undefined'' | Some t \<Rightarrow> t)"

text \<open>
  \<^verbatim>\<open>output[p] = v\<close> on a plain object. Assigning to \<^verbatim>\<open>__proto__\<close> goes to the setter
  of \<^verbatim>\<open>Object.prototype\<close> and adds no field. An existing field keeps its place. A new
  field whose name is an array index (the canonical decimal text of a number up to
  4294967294) is listed among the index fields in ascending order, before all others; any
  other new field comes last.
\<close>

definition digits_value :: "string \<Rightarrow> int" where
  "digits_value s = foldl (\<lambda>n c. 10 * n + ((of_char c :: int) - 48)) 0 s"

definition array_index :: "string \<Rightarrow> int option" where
  "array_index s =
     (if s \<noteq> [] \<and> list_all is_digit s \<and> (s = ''0'' \<or> hd s \<noteq> CHR ''0'')
         \<and> digits_value s \<le> 4294967294
      then Some (digits_value s) else None)"

definition index_below :: "int \<Rightarrow> string \<times> jsval \<Rightarrow> bool" where
  "index_below i f = (case array_index (fst f) of Some j \<Rightarrow> j < i | None \<Rightarrow> False)"

definition js_assign :: "(string \<times> jsval) list \<Rightarrow> string \<Rightarrow> jsval \<Rightarrow> (string \<times> jsval) list" where
  "js_assign fs p v =
     (if p = ''__proto__'' then fs
      else if p \<in> fst ` set fs then map (\<lambda>f. if fst f = p then (p, v) else f) fs
      else (case array_index p of
              Some i \<Rightarrow> takeWhile (index_below i) fs @ [(p, v)] @ dropWhile (index_below i) fs
            | None \<Rightarrow> fs @ [(p, v)]))"

section \<open>The invocation and its collaborators\<close>

text \<open>
  The parsed command line, as \<^verbatim>\<open>args.args\<close> and \<^verbatim>\<open>args.flags\<close> hold it. The debug
  flag is left out: the runs of the model are those without \<^verbatim>\<open>-d\<close>. The blind peer
  keys only reach the mirroring helper.
\<close>

record args =
  roomLink :: string
  query :: string
  namedQuery :: bool
  storage :: "string option"
  flag_json :: bool
  flag_export :: bool

type_synonym byte = "8 word"

record schema =
  schemaId :: string

record named_query =
  name :: string
  JMESPathQuery :: string

record row =
  json :: jsval

datatype site = InBody | InCatch

datatype teardown_step = AtBlindClose | AtSwarmDestroy | AtStoreClose

text \<open>
  What the libraries and the store answer. One run of \<^verbatim>\<open>executeQuery\<close> is an attempt,
  numbered from 0. Within an attempt \<^verbatim>\<open>listSchemas\<close> is called up to three times,
  \<^verbatim>\<open>listQueries\<close> and \<^verbatim>\<open>list\<close> at most once each, and \<^verbatim>\<open>cleanup\<close> at most once in
  the body of the \<^verbatim>\<open>try\<close> and at most once in its \<^verbatim>\<open>catch\<close>; every call is therefore
  named by its attempt and its place. \<open>teardown_throws\<close> says whether one of the three
  calls \<^verbatim>\<open>blind.close()\<close>, \<^verbatim>\<open>swarm.destroy()\<close>, \<^verbatim>\<open>store.close()\<close> of a \<^verbatim>\<open>cleanup\<close>
  throws, and \<open>rm_result\<close> whether removing the directory fails. \<open>inspect\<close> is the text
  \<^verbatim>\<open>console.log\<close> prints for a value that is not a string.
\<close>

record env =
  z32_decode :: "string \<Rightarrow> error + byte list"
  temp_path :: string
  sheets_ready :: "error option"
  swarm_join :: "error option"
  listSchemas :: "nat \<Rightarrow> nat \<Rightarrow> error + schema list"
  listQueries :: "nat \<Rightarrow> string \<Rightarrow> error + named_query list"
  sheets_list :: "nat \<Rightarrow> string \<Rightarrow> string \<Rightarrow> error + row list"
  teardown_throws :: "nat \<Rightarrow> site \<Rightarrow> (teardown_step \<times> error) option"
  rm_result :: "nat \<Rightarrow> site \<Rightarrow> error option"
  inspect :: "jsval \<Rightarrow> string"
  builtin_get :: "jsval \<Rightarrow> string \<Rightarrow> jsval"

text \<open>What a run does, in order.\<close>

datatype event =
    Stdout string
  | Stderr string
  | StderrError error
  | StderrRm error
  | NewSchemaSheets "byte list" "byte list"
  | ListSchemasCall
  | ListQueriesCall string
  | ListCall string string
  | BlindClose
  | SwarmDestroy
  | StoreClose
  | Rm string
  | Sleep nat

text \<open>
  How a piece of code inside \<^verbatim>\<open>executeQuery\<close> ends: with \<^verbatim>\<open>process.exit(code)\<close> or
  with an exception; and how the process ends: with an exit code, with an exception that
  nothing catches at the top level, or with a rejected promise that nothing handles.
\<close>

datatype outcome = Exited nat | Threw error

datatype final = Exit nat | Uncaught error | UnhandledRejection error

section \<open>Decoding the room link\<close>

text \<open>
  Lines 73-75: \<^verbatim>\<open>z32.decode\<close>, then \<^verbatim>\<open>subarray(0, 32)\<close> and \<^verbatim>\<open>subarray(32)\<close>, which clamp
  their bounds to the length of the buffer.
\<close>

definition decode_room_link :: "env \<Rightarrow> string \<Rightarrow> error + (byte list \<times> byte list)" where
  "decode_room_link env link =
     (case z32_decode env link of
        Inl e \<Rightarrow> Inl e
      | Inr decoded \<Rightarrow> Inr (take 32 decoded, drop 32 decoded))"

section \<open>Teardown\<close>

text \<open>
  \<^verbatim>\<open>args.flags.storage\<close> is truthy: a path was given, and it is not the empty string.
  \<^verbatim>\<open>storagePath\<close> is \<^verbatim>\<open>args.flags.storage || tempPath()\<close> (line 34).
\<close>

definition storage_given :: "args \<Rightarrow> bool" where
  "storage_given a = (case storage a of None \<Rightarrow> False | Some s \<Rightarrow> s \<noteq> [])"

definition storagePath :: "env \<Rightarrow> args \<Rightarrow> string" where
  "storagePath env a =
     (case storage a of
        None \<Rightarrow> temp_path env
      | Some s \<Rightarrow> if s \<noteq> [] then s else temp_path env)"

text \<open>
  \<^verbatim>\<open>cleanup\<close> (lines 51-68): the three calls, then the removal of the directory when no
  storage was given. A failure of the removal is caught and logged. The function has
  no guard: every call does all of this again.
\<close>

definition cleanup :: "env \<Rightarrow> args \<Rightarrow> nat \<Rightarrow> site \<Rightarrow> event list \<times> error option" where
  "cleanup env a attempt site =
     (case teardown_throws env attempt site of
        Some (AtBlindClose, e) \<Rightarrow> ([BlindClose], Some e)
      | Some (AtSwarmDestroy, e) \<Rightarrow> ([BlindClose, SwarmDestroy], Some e)
      | Some (AtStoreClose, e) \<Rightarrow> ([BlindClose, SwarmDestroy, StoreClose], Some e)
      | None \<Rightarrow>
          ([BlindClose, SwarmDestroy, StoreClose] @
           (if \<not> storage_given a
            then Rm (storagePath env a) #
                 (case rm_result env attempt site of Some e \<Rightarrow> [StderrRm e] | None \<Rightarrow> [])
            else []),
           None))"

text \<open>\<^verbatim>\<open>await cleanup(); process.exit(code)\<close> inside the \<^verbatim>\<open>try\<close>.\<close>

definition cleanup_and_exit :: "env \<Rightarrow> args \<Rightarrow> nat \<Rightarrow> nat \<Rightarrow> event list \<times> outcome" where
  "cleanup_and_exit env a attempt code =
     (case cleanup env a attempt InBody of
        (evs, Some e) \<Rightarrow> (evs, Threw e)
      | (evs, None) \<Rightarrow> (evs, Exited code))"

section \<open>Listing the schemas\<close>

text \<open>
  \<^verbatim>\<open>getSchemas\<close> (lines 272-300). The loop runs while retries are left and no schema was
  found; a call that throws and a call that returns nothing both use up one retry, and
  are followed by the 2000 ms pause when a retry is left. The call made with
  \<open>retries\<close> left is call number \<open>3 - retries\<close> of the attempt.
\<close>

function getSchemas_loop :: "env \<Rightarrow> nat \<Rightarrow> schema list \<Rightarrow> nat \<Rightarrow> schema list \<times> event list" where
  "getSchemas_loop env attempt schemas retries =
     (if retries > 0 \<and> schemas = []
      then (case listSchemas env attempt (3 - retries) of
              Inr found \<Rightarrow>
                (if found = []
                 then (case getSchemas_loop env attempt found (retries - 1) of
                         (r, evs) \<Rightarrow>
                           (r, ListSchemasCall # (if retries - 1 > 0 then [Sleep 2000] else []) @ evs))
                 else (case getSchemas_loop env attempt found retries of
                         (r, evs) \<Rightarrow> (r, ListSchemasCall # evs)))
            | Inl e \<Rightarrow>
                (case getSchemas_loop env attempt schemas (retries - 1) of
                   (r, evs) \<Rightarrow>
                     (r, ListSchemasCall # (if retries - 1 > 0 then [Sleep 2000] else []) @ evs)))
      else (schemas, []))"
  by pat_completeness auto
termination
  by (relation "measure (\<lambda>(env, attempt, schemas, retries). 2 * retries + (if schemas = [] then 1 else 0))")
    auto

declare getSchemas_loop.simps [simp del]

definition getSchemas :: "env \<Rightarrow> nat \<Rightarrow> schema list \<times> event list" where
  "getSchemas env attempt = getSchemas_loop env attempt [] 3"

section \<open>Projection and output\<close>

text \<open>\<^verbatim>\<open>console.log(value)\<close>: a string is printed as it is.\<close>

definition console_text :: "env \<Rightarrow> jsval \<Rightarrow> string" where
  "console_text env v = (case v of JStr s \<Rightarrow> s | _ \<Rightarrow> inspect env v)"

text \<open>The line of lines 205 and 241.\<close>

definition shell_line :: "string \<Rightarrow> string \<Rightarrow> string \<Rightarrow> string" where
  "shell_line exportPrefix prop str =
     exportPrefix @ propertyToVarName prop @ ''='' @ [dquote] @ escapeShellValue str @ [dquote]"

definition exportPrefix :: "args \<Rightarrow> string" where
  "exportPrefix a = (if flag_export a then ''export '' else [])"

text \<open>
  Lines 201-207: for each requested property whose lookup is not \<^verbatim>\<open>undefined\<close>, one
  line. The result is the lines printed and, when a lookup or a conversion throws, the
  exception that ends the loop.
\<close>

fun shell_lines :: "(jsval \<Rightarrow> string \<Rightarrow> jsval) \<Rightarrow> string \<Rightarrow> jsval \<Rightarrow> string list
    \<Rightarrow> string list \<times> error option" where
  "shell_lines bg pre asJson [] = ([], None)"
| "shell_lines bg pre asJson (prop # props) =
     (case js_get bg asJson prop of
        Inl e \<Rightarrow> ([], Some e)
      | Inr v \<Rightarrow>
          (if v \<noteq> JUndefined
           then (case js_String v of
                   None \<Rightarrow> ([], Some TypeError)
                 | Some str \<Rightarrow>
                     (case shell_lines bg pre asJson props of
                        (ls, r) \<Rightarrow> (shell_line pre prop str # ls, r)))
           else shell_lines bg pre asJson props))"

text \<open>Lines 191-196: the object built for the JSON output.\<close>

fun json_props :: "(jsval \<Rightarrow> string \<Rightarrow> jsval) \<Rightarrow> jsval \<Rightarrow> string list
    \<Rightarrow> (string \<times> jsval) list \<Rightarrow> error + (string \<times> jsval) list" where
  "json_props bg asJson [] output = Inr output"
| "json_props bg asJson (prop # props) output =
     (case js_get bg asJson prop of
        Inl e \<Rightarrow> Inl e
      | Inr v \<Rightarrow> json_props bg asJson props (if v \<noteq> JUndefined then js_assign output prop v else output))"

text \<open>Lines 182-209: what named mode prints for the first record.\<close>

definition named_output :: "env \<Rightarrow> args \<Rightarrow> string list option \<Rightarrow> jsval \<Rightarrow> event list \<times> error option" where
  "named_output env a properties asJson =
     (case properties of
        None \<Rightarrow>
          (case first_key asJson of
             Inl e \<Rightarrow> ([], Some e)
           | Inr firstField \<Rightarrow>
               (case js_get (builtin_get env) asJson
                       (case firstField of None \<Rightarrow> ''undefined'' | Some k \<Rightarrow> k) of
                  Inl e \<Rightarrow> ([], Some e)
                | Inr v \<Rightarrow> ([Stdout (console_text env v)], None)))
      | Some props \<Rightarrow>
          (if flag_json a
           then (case json_props (builtin_get env) asJson props [] of
                   Inl e \<Rightarrow> ([], Some e)
                 | Inr output \<Rightarrow> ([Stdout (stringify_text (JObj output))], None))
           else (case shell_lines (builtin_get env) (exportPrefix a) asJson props of
                   (ls, r) \<Rightarrow> (map Stdout ls, r))))"

text \<open>
  Lines 238-242: one line for each own key of the first result, without a test of the
  value.
\<close>

fun flatten_lines :: "(jsval \<Rightarrow> string \<Rightarrow> jsval) \<Rightarrow> string \<Rightarrow> jsval \<Rightarrow> string list
    \<Rightarrow> string list \<times> error option" where
  "flatten_lines bg pre firstResult [] = ([], None)"
| "flatten_lines bg pre firstResult (prop # props) =
     (case js_get bg firstResult prop of
        Inl e \<Rightarrow> ([], Some e)
      | Inr v \<Rightarrow>
          (case js_String v of
             None \<Rightarrow> ([], Some TypeError)
           | Some str \<Rightarrow>
               (case flatten_lines bg pre firstResult props of
                  (ls, r) \<Rightarrow> (shell_line pre prop str # ls, r))))"

text \<open>
  \<^verbatim>\<open>typeof v === 'object' && v !== null && !Array.isArray(v)\<close>, and \<^verbatim>\<open>Object.keys\<close> of
  such a value.
\<close>

definition is_object :: "jsval \<Rightarrow> bool" where
  "is_object v = (case v of JObj fs \<Rightarrow> True | JObjectPrototype \<Rightarrow> True | _ \<Rightarrow> False)"

definition object_keys :: "jsval \<Rightarrow> string list" where
  "object_keys v = (case v of JObj fs \<Rightarrow> map fst fs | _ \<Rightarrow> [])"

text \<open>
  Lines 225-247: what expression mode prints for a non-empty list of results, given as
  its first record and the rest.
\<close>

definition expression_output :: "env \<Rightarrow> args \<Rightarrow> row \<Rightarrow> row list \<Rightarrow> event list \<times> error option" where
  "expression_output env a r rs =
     (if flag_json a
      then (if rs = []
            then ([Stdout (stringify_text (json r))], None)
            else ([Stdout (stringify_text (JArr (map json (r # rs))))], None))
      else (let firstResult = json r in
            if is_object firstResult
            then (case flatten_lines (builtin_get env) (exportPrefix a) firstResult
                         (object_keys firstResult) of
                    (ls, e) \<Rightarrow> (map Stdout ls, e))
            else ([Stdout (console_text env firstResult)], None)))"

section \<open>The query pipeline\<close>

definition after :: "event list \<Rightarrow> event list \<times> 'a \<Rightarrow> event list \<times> 'a" where
  "after evs p = (evs @ fst p, snd p)"

text \<open>
  The three fatal exits inside the \<^verbatim>\<open>try\<close> (lines 127-131, 161-165, 174-178 and
  219-223): a line on the error stream, \<^verbatim>\<open>cleanup\<close>, \<^verbatim>\<open>process.exit(1)\<close>.
\<close>

definition fail_exit :: "env \<Rightarrow> args \<Rightarrow> nat \<Rightarrow> string \<Rightarrow> event list \<times> outcome" where
  "fail_exit env a attempt msg = after [Stderr msg] (cleanup_and_exit env a attempt 1)"

text \<open>
  The end of the \<^verbatim>\<open>try\<close> (lines 250-253) after the output: when printing threw, the
  exception goes on; otherwise \<^verbatim>\<open>cleanup\<close> and \<^verbatim>\<open>process.exit(0)\<close>.
\<close>

definition print_and_exit :: "env \<Rightarrow> args \<Rightarrow> nat \<Rightarrow> event list \<times> error option \<Rightarrow> event list \<times> outcome" where
  "print_and_exit env a attempt out =
     (case out of
        (evs, Some e) \<Rightarrow> (evs, Threw e)
      | (evs, None) \<Rightarrow> after evs (cleanup_and_exit env a attempt 0))"

text \<open>Named mode, lines 139-209.\<close>

definition named_branch :: "env \<Rightarrow> args \<Rightarrow> nat \<Rightarrow> string \<Rightarrow> event list \<times> outcome" where
  "named_branch env a attempt sid =
     (case parse_named_query (query a) of
        (queryName, properties) \<Rightarrow>
          after [ListQueriesCall sid]
            (case listQueries env attempt sid of
               Inl e \<Rightarrow> ([], Threw e)
             | Inr queries \<Rightarrow>
                 (case find (\<lambda>q. name q = queryName) queries of
                    None \<Rightarrow>
                      fail_exit env a attempt
                        (''Query '' @ [dquote] @ queryName @ [dquote] @ '' not found'')
                  | Some q \<Rightarrow>
                      after [ListCall sid (JMESPathQuery q)]
                        (case sheets_list env attempt sid (JMESPathQuery q) of
                           Inl e \<Rightarrow> ([], Threw e)
                         | Inr [] \<Rightarrow> fail_exit env a attempt ''No results found''
                         | Inr (r # rs) \<Rightarrow>
                             print_and_exit env a attempt
                               (named_output env a properties (json r))))))"

text \<open>Expression mode, lines 211-247.\<close>

definition expression_branch :: "env \<Rightarrow> args \<Rightarrow> nat \<Rightarrow> string \<Rightarrow> event list \<times> outcome" where
  "expression_branch env a attempt sid =
     after [ListCall sid (query a)]
       (case sheets_list env attempt sid (query a) of
          Inl e \<Rightarrow> ([], Threw e)
        | Inr [] \<Rightarrow> fail_exit env a attempt ''No results found''
        | Inr (r # rs) \<Rightarrow> print_and_exit env a attempt (expression_output env a r rs))"

text \<open>The body of the \<^verbatim>\<open>try\<close> of \<^verbatim>\<open>executeQuery\<close> (lines 120-253).\<close>

definition executeQuery_body :: "env \<Rightarrow> args \<Rightarrow> nat \<Rightarrow> event list \<times> outcome" where
  "executeQuery_body env a attempt =
     (case getSchemas env attempt of
        (schemas, evs) \<Rightarrow>
          after evs
            (case schemas of
               [] \<Rightarrow> fail_exit env a attempt ''No schemas found''
             | s # rest \<Rightarrow>
                 (if namedQuery a then named_branch env a attempt (schemaId s)
                  else expression_branch env a attempt (schemaId s))))"

text \<open>
  \<^verbatim>\<open>executeQuery\<close> (lines 118-259). Its \<^verbatim>\<open>catch\<close> logs the exception, calls
  \<^verbatim>\<open>cleanup\<close> and exits with code 1. The promise is rejected only when that
  \<^verbatim>\<open>cleanup\<close> throws.
\<close>

definition executeQuery :: "env \<Rightarrow> args \<Rightarrow> nat \<Rightarrow> event list \<times> outcome" where
  "executeQuery env a attempt =
     (case executeQuery_body env a attempt of
        (evs, Exited code) \<Rightarrow> (evs, Exited code)
      | (evs, Threw e) \<Rightarrow>
          after (evs @ [StderrError e])
            (case cleanup env a attempt InCatch of
               (cevs, Some e') \<Rightarrow> (cevs, Threw e')
             | (cevs, None) \<Rightarrow> (cevs, Exited 1)))"

text \<open>
  The module, top to bottom. An exception of \<^verbatim>\<open>z32.decode\<close> (line 73) and a rejection
  of the awaited \<^verbatim>\<open>sheets.ready()\<close> (line 86) or \<^verbatim>\<open>swarm.join\<close> (line 90) are caught by
  nothing. Then lines 263-270: \<^verbatim>\<open>executeQuery()\<close>, and when its promise is rejected, a
  pause of 200 ms and a second \<^verbatim>\<open>executeQuery()\<close> whose promise nothing handles.
  \<^verbatim>\<open>cleanup\<close> is also registered with graceful-goodbye (line 70), which runs it on
  SIGINT, SIGTERM and \<^verbatim>\<open>beforeExit\<close>; \<^verbatim>\<open>process.exit\<close> and an uncaught exception raise
  none of these, and signals are not part of the model.
\<close>

definition main :: "env \<Rightarrow> args \<Rightarrow> event list \<times> final" where
  "main env a =
     (case decode_room_link env (roomLink a) of
        Inl e \<Rightarrow> ([], Uncaught e)
      | Inr (key, encryptionKey) \<Rightarrow>
          after [NewSchemaSheets key encryptionKey]
            (case sheets_ready env of
               Some e \<Rightarrow> ([], Uncaught e)
             | None \<Rightarrow>
                 (case swarm_join env of
                    Some e \<Rightarrow> ([], Uncaught e)
                  | None \<Rightarrow>
                      (case executeQuery env a 0 of
                         (evs, Exited code) \<Rightarrow> (evs, Exit code)
                       | (evs, Threw e) \<Rightarrow>
                           after (evs @ [Sleep 200])
                             (case executeQuery env a 1 of
                                (evs', Exited code) \<Rightarrow> (evs', Exit code)
                              | (evs', Threw e') \<Rightarrow> (evs', UnhandledRejection e'))))))"

section \<open>A sample environment\<close>

text \<open>
  A store with one schema, one named query \<^verbatim>\<open>q\<close> and one record
  \<^verbatim>\<open>{"a":"1","b":"2"}\<close>, in which every call succeeds; the locator decodes to 64 bytes.
\<close>

definition sample_env :: env where
  "sample_env =
     \<lparr> z32_decode = (\<lambda>link. Inr (replicate 32 1 @ replicate 32 2)),
       temp_path = ''/tmp/t'',
       sheets_ready = None,
       swarm_join = None,
       listSchemas = (\<lambda>attempt k. Inr [\<lparr> schemaId = ''s'' \<rparr>]),
       listQueries = (\<lambda>attempt sid. Inr [\<lparr> name = ''q'', JMESPathQuery = ''[]'' \<rparr>]),
       sheets_list = (\<lambda>attempt sid q. Inr [\<lparr> json = JObj [(''a'', JStr ''1''), (''b'', JStr ''2'')] \<rparr>]),
       teardown_throws = (\<lambda>attempt site. None),
       rm_result = (\<lambda>attempt site. None),
       inspect = (\<lambda>v. stringify_text v),
       builtin_get = (\<lambda>v p. JUndefined) \<rparr>"

definition sample_args :: args where
  "sample_args =
     \<lparr> roomLink = ''yyyy'', query = ''q:a,c'', namedQuery = True, storage = None,
       flag_json = False, flag_export = False \<rparr>"

section \<open>Reading a run\<close>

text \<open>
  The outcome of one \<^verbatim>\<open>listSchemas\<close> call: nothing (it threw, or it returned no
  schema), or the schemas found.
\<close>

definition no_schemas :: "env \<Rightarrow> nat \<Rightarrow> nat \<Rightarrow> bool" where
  "no_schemas env attempt k =
     (case listSchemas env attempt k of Inl e \<Rightarrow> True | Inr found \<Rightarrow> found = [])"

definition schemas_found :: "env \<Rightarrow> nat \<Rightarrow> nat \<Rightarrow> schema list" where
  "schemas_found env attempt k =
     (case listSchemas env attempt k of Inl e \<Rightarrow> [] | Inr found \<Rightarrow> found)"

text \<open>
  The teardown events of a run, and the sequence one complete \<^verbatim>\<open>cleanup\<close> contributes.
\<close>

definition is_teardown :: "event \<Rightarrow> bool" where
  "is_teardown ev =
     (case ev of
        BlindClose \<Rightarrow> True
      | SwarmDestroy \<Rightarrow> True
      | StoreClose \<Rightarrow> True
      | Rm path \<Rightarrow> True
      | _ \<Rightarrow> False)"

definition is_Rm :: "event \<Rightarrow> bool" where
  "is_Rm ev = (case ev of Rm path \<Rightarrow> True | _ \<Rightarrow> False)"

definition teardown_events :: "event list \<Rightarrow> event list" where
  "teardown_events tr = filter is_teardown tr"

definition teardown_sequence :: "env \<Rightarrow> args \<Rightarrow> event list" where
  "teardown_sequence env a =
     [BlindClose, SwarmDestroy, StoreClose] @
     (if storage_given a then [] else [Rm (storagePath env a)])"

text \<open>
  What holds of a piece of code inside the \<^verbatim>\<open>try\<close> when its \<^verbatim>\<open>cleanup\<close> does not throw:
  if it ends with \<^verbatim>\<open>process.exit\<close>, it has gone through exactly one teardown sequence;
  if it ends with an exception, through none.
\<close>

definition ends_well :: "env \<Rightarrow> args \<Rightarrow> event list \<times> outcome \<Rightarrow> bool" where
  "ends_well env a p =
     (case snd p of
        Exited code \<Rightarrow> teardown_events (fst p) = teardown_sequence env a
      | Threw e \<Rightarrow> teardown_events (fst p) = [])"

section \<open>Escaping\<close>

lemma replace_all_Nil: "replace_all c r [] = []"
  by (simp add: replace_all_def)

lemma replace_all_Cons:
  "replace_all c r (x # xs) = (if x = c then r else [x]) @ replace_all c r xs"
  by (simp add: replace_all_def)

lemma replace_all_append:
  "replace_all c r (xs @ ys) = replace_all c r xs @ replace_all c r ys"
  by (simp add: replace_all_def)

lemma escapeShellValue_Nil: "escapeShellValue [] = []"
  by (simp add: escapeShellValue_def replace_all_Nil)

lemma escapeShellValue_Cons:
  "escapeShellValue (c # cs) = escape_char c @ escapeShellValue cs"
  by (simp add: escapeShellValue_def escape_char_def replace_all_Cons replace_all_append
      replace_all_Nil)

lemma escapeShellValue_concat: "escapeShellValue s = concat (map escape_char s)"
  by (induction s) (simp_all add: escapeShellValue_Nil escapeShellValue_Cons)

lemma escaped_escape_char: "escaped ys \<Longrightarrow> escaped (escape_char c @ ys)"
  by (cases ys) (auto simp: escape_char_def)

lemma escaped_escapeShellValue: "escaped (escapeShellValue s)"
  by (induction s) (simp_all add: escapeShellValue_Nil escapeShellValue_Cons escaped_escape_char)

text \<open>
  C8. For every input string, \<^verbatim>\<open>escapeShellValue\<close> is the five substitutions in the order
  backslash, double quote, backtick, dollar sign, newline; its result is the input with
  each character replaced by its escape, and it is escaped: no backslash, double quote,
  backtick or dollar sign stands outside a two-character escape, and no newline is left.
\<close>

theorem escapeShellValue_five_substitutions:
  "escapeShellValue s =
     replace_all newline [backslash, CHR ''n'']
       (replace_all dollar [backslash, dollar]
         (replace_all backtick [backslash, backtick]
           (replace_all dquote [backslash, dquote]
             (replace_all backslash [backslash, backslash] s))))
   \<and> escapeShellValue s = concat (map escape_char s)
   \<and> escaped (escapeShellValue s)
   \<and> newline \<notin> set (escapeShellValue s)"
proof -
  have "newline \<notin> set (escape_char c)" for c
    by (simp add: escape_char_def)
  then have "newline \<notin> set (escapeShellValue s)"
    by (simp add: escapeShellValue_concat)
  then show ?thesis
    using escapeShellValue_concat [of s] escaped_escapeShellValue [of s]
    by (simp add: escapeShellValue_def)
qed

theorem escapeShellValue_five_substitutions_witness:
  "escapeShellValue [CHR ''a'', backslash, dquote, backtick, dollar, newline, CHR ''n'']
     = [CHR ''a'', backslash, backslash, backslash, dquote, backslash, backtick,
        backslash, dollar, backslash, CHR ''n'', CHR ''n'']
   \<and> escaped (escapeShellValue [CHR ''a'', backslash, dquote, backtick, dollar, newline, CHR ''n''])"
  using escapeShellValue_five_substitutions
    [of "[CHR ''a'', backslash, dquote, backtick, dollar, newline, CHR ''n'']"]
  by (simp add: replace_all_def)

section \<open>Variable names\<close>

text \<open>
  C10. \<^verbatim>\<open>propertyToVarName\<close> is not injective: \<^verbatim>\<open>api-key\<close>, \<^verbatim>\<open>api.key\<close> and
  \<^verbatim>\<open>api key\<close> all give \<^verbatim>\<open>API_KEY\<close>. When two distinct requested properties with the
  same variable name are both fields of the record, shell mode prints two assignment
  lines with that one variable name, in the order of the request.
\<close>

theorem propertyToVarName_collision:
  assumes "x \<noteq> y" and "propertyToVarName x = propertyToVarName y"
    and "map_of fs x = Some v" and "map_of fs y = Some w"
    and "v \<noteq> JUndefined" and "w \<noteq> JUndefined"
    and "js_String v = Some s" and "js_String w = Some t"
    and "\<not> flag_json a"
  shows "\<not> inj propertyToVarName
    \<and> named_output env a (Some [x, y]) (JObj fs)
        = ([Stdout (exportPrefix a @ propertyToVarName x @ ''='' @ [dquote]
                      @ escapeShellValue s @ [dquote]),
            Stdout (exportPrefix a @ propertyToVarName x @ ''='' @ [dquote]
                      @ escapeShellValue t @ [dquote])],
           None)"
proof -
  have "\<not> inj propertyToVarName"
  proof
    assume "inj propertyToVarName"
    then have "x = y" using assms(2) by (rule injD)
    with assms(1) show False by simp
  qed
  moreover have "shell_lines (builtin_get env) (exportPrefix a) (JObj fs) [x, y]
      = ([shell_line (exportPrefix a) x s, shell_line (exportPrefix a) y t], None)"
    using assms(3-8) by (simp add: js_get_def)
  ultimately show ?thesis
    using assms(2,9) by (simp add: named_output_def shell_line_def)
qed

theorem propertyToVarName_collision_witness:
  "''api-key'' \<noteq> ''api.key''
   \<and> propertyToVarName ''api-key'' = ''API_KEY''
   \<and> propertyToVarName ''api.key'' = ''API_KEY''
   \<and> propertyToVarName ''api key'' = ''API_KEY''
   \<and> named_output sample_env sample_args (Some [''api-key'', ''api.key''])
        (JObj [(''api-key'', JStr ''k1''), (''api.key'', JStr ''k2'')])
      = ([Stdout (''API_KEY='' @ [dquote] @ ''k1'' @ [dquote]),
          Stdout (''API_KEY='' @ [dquote] @ ''k2'' @ [dquote])], None)"
proof -
  have v1: "propertyToVarName ''api-key'' = ''API_KEY''" by code_simp
  have v2: "propertyToVarName ''api.key'' = ''API_KEY''" by code_simp
  have v3: "propertyToVarName ''api key'' = ''API_KEY''" by code_simp
  have e1: "escapeShellValue ''k1'' = ''k1''" by code_simp
  have e2: "escapeShellValue ''k2'' = ''k2''" by code_simp
  have f: "\<not> flag_json sample_args" "exportPrefix sample_args = []"
    by (simp_all add: sample_args_def exportPrefix_def)
  show ?thesis
    using propertyToVarName_collision [where x = "''api-key''" and y = "''api.key''"
        and fs = "[(''api-key'', JStr ''k1''), (''api.key'', JStr ''k2'')]"
        and v = "JStr ''k1''" and w = "JStr ''k2''" and s = "''k1''" and t = "''k2''"
        and a = sample_args and env = sample_env]
      v1 v2 v3 e1 e2 f
    by simp
qed

section \<open>The room link\<close>

text \<open>
  C2, as the code has it. The decode fails exactly when \<^verbatim>\<open>z32.decode\<close> throws. Otherwise
  the identifier is the first 32 bytes of the decoded sequence, or all of it when it is
  shorter, and the secret is the rest: identifier and secret together are the decoded
  sequence, and the identifier has 32 bytes exactly when at least 32 bytes were decoded.
  Nothing checks the length.
\<close>

theorem decode_room_link_split:
  "(case z32_decode env link of
      Inl e \<Rightarrow> decode_room_link env link = Inl e
    | Inr decoded \<Rightarrow>
        decode_room_link env link = Inr (take 32 decoded, drop 32 decoded)
        \<and> take 32 decoded @ drop 32 decoded = decoded
        \<and> length (take 32 decoded) = min 32 (length decoded)
        \<and> (length (take 32 decoded) = 32) = (32 \<le> length decoded))"
  by (auto simp: decode_room_link_def split: sum.splits)

theorem decode_room_link_split_witness:
  "decode_room_link sample_env ''yyyy'' = Inr (replicate 32 1, replicate 32 2)"
proof -
  have "z32_decode sample_env ''yyyy'' = Inr (replicate 32 1 @ replicate 32 2)"
    by (simp add: sample_env_def)
  then show ?thesis
    using decode_room_link_split [of sample_env "''yyyy''"] by simp
qed

text \<open>
  C2 as stated fails: when the locator decodes to five bytes, the decode succeeds with an
  identifier of five bytes and an empty secret.
\<close>

theorem decode_short_identifier:
  "decode_room_link (sample_env\<lparr>z32_decode := (\<lambda>link. Inr [0, 0, 0, 0, 0])\<rparr>) ''yyyyyyyy''
     = Inr ([0, 0, 0, 0, 0], [])"
  by (simp add: decode_room_link_def)

section \<open>Expression mode\<close>

text \<open>
  C3, as the code has it. With the json flag, expression mode prints the JSON text of the
  first value, or of the array of all values when there are several results; for a
  string that is the string in double quotes. Without the json flag, a first value that
  is not a non-null, non-array object is printed by \<^verbatim>\<open>console.log\<close> as it is, a string
  bare, and the export flag changes nothing.
\<close>

theorem expression_scalar_output:
  "(flag_json a \<longrightarrow>
      expression_output env a r rs
        = ([Stdout (stringify_text (if rs = [] then json r else JArr (map json (r # rs))))], None))
   \<and> (\<not> flag_json a \<and> \<not> is_object (json r) \<longrightarrow>
      expression_output env a r rs = ([Stdout (console_text env (json r))], None)
      \<and> expression_output env (a\<lparr>flag_export := b\<rparr>) r rs = expression_output env a r rs)
   \<and> console_text env (JStr s) = s
   \<and> stringify_text (JStr s) = json_quote s"
  by (simp add: expression_output_def console_text_def stringify_text_def Let_def)

theorem expression_scalar_output_witness:
  "expression_output sample_env (sample_args\<lparr>namedQuery := False\<rparr>) \<lparr>json = JStr ''abc''\<rparr> []
     = ([Stdout ''abc''], None)
   \<and> expression_output sample_env (sample_args\<lparr>namedQuery := False, flag_export := True\<rparr>)
        \<lparr>json = JStr ''abc''\<rparr> []
     = ([Stdout ''abc''], None)"
proof -
  have f: "\<not> flag_json (sample_args\<lparr>namedQuery := False\<rparr>)"
    by (simp add: sample_args_def)
  have o: "\<not> is_object (json \<lparr>json = JStr ''abc''\<rparr>)"
    by (simp add: is_object_def)
  show ?thesis
    using expression_scalar_output [where a = "sample_args\<lparr>namedQuery := False\<rparr>"
        and env = sample_env and r = "\<lparr>json = JStr ''abc''\<rparr>" and rs = "[]" and b = True
        and s = "''abc''"] f o
    by simp
qed

text \<open>
  C3 as stated fails: with the json flag the scalar \<^verbatim>\<open>abc\<close> is printed in double quotes,
  not bare as without the flag, and with a second result an array is printed.
\<close>

theorem expression_scalar_json_flag:
  "expression_output sample_env (sample_args\<lparr>namedQuery := False, flag_json := True\<rparr>)
     \<lparr>json = JStr ''abc''\<rparr> []
     = ([Stdout ([dquote] @ ''abc'' @ [dquote])], None)
   \<and> expression_output sample_env (sample_args\<lparr>namedQuery := False, flag_json := False\<rparr>)
     \<lparr>json = JStr ''abc''\<rparr> []
     = ([Stdout ''abc''], None)
   \<and> expression_output sample_env (sample_args\<lparr>namedQuery := False, flag_json := True\<rparr>)
     \<lparr>json = JStr ''abc''\<rparr> [\<lparr>json = JStr ''d''\<rparr>]
     = ([Stdout (''['' @ [dquote] @ ''abc'' @ [dquote] @ '','' @ [dquote] @ ''d'' @ [dquote] @ '']'')], None)"
  by (simp add: expression_output_def sample_args_def stringify_text_def json_quote_def
      json_quote_char_def is_object_def console_text_def)

section \<open>Named mode\<close>

text \<open>
  A requested property whose lookup gives \<^verbatim>\<open>undefined\<close> changes nothing: the run is the
  run of the request without it, in shell output and in JSON output. On a plain object
  the lookup gives \<^verbatim>\<open>undefined\<close> when the name is neither a field of the object nor a
  member of \<^verbatim>\<open>Object.prototype\<close>.
\<close>

lemma shell_lines_skips_undefined:
  "js_get bg asJson p = Inr JUndefined \<Longrightarrow>
   shell_lines bg pre asJson (ps @ p # qs) = shell_lines bg pre asJson (ps @ qs)"
  by (induction ps) (auto split: sum.splits option.splits prod.splits)

lemma json_props_skips_undefined:
  "js_get bg asJson p = Inr JUndefined \<Longrightarrow>
   json_props bg asJson (ps @ p # qs) out = json_props bg asJson (ps @ qs) out"
  by (induction ps arbitrary: out) (auto split: sum.splits)

lemma named_output_skips_undefined:
  "js_get (builtin_get env) asJson p = Inr JUndefined \<Longrightarrow>
   named_output env a (Some (ps @ p # qs)) asJson = named_output env a (Some (ps @ qs)) asJson"
  by (simp add: named_output_def shell_lines_skips_undefined json_props_skips_undefined)

lemma js_get_absent:
  "map_of fs p = None \<Longrightarrow> p \<noteq> ''__proto__'' \<Longrightarrow> p \<noteq> ''constructor''
   \<Longrightarrow> p \<notin> set object_prototype_functions \<Longrightarrow> js_get bg (JObj fs) p = Inr JUndefined"
  by (simp add: js_get_def object_prototype_get_def)

text \<open>
  The query argument: without a colon there are no properties; with one, the name is
  what precedes the first colon, and the properties are the trimmed, non-empty pieces of
  the rest, in their order.
\<close>

lemma parse_named_query_plain:
  "CHR '':'' \<notin> set q \<Longrightarrow> parse_named_query q = (q, None)"
proof -
  assume a: "CHR '':'' \<notin> set q"
  have "indexOf CHR '':'' q = - 1"
    using a by (induction q) (auto simp: Let_def)
  then show ?thesis
    by (simp add: parse_named_query_def)
qed

lemma parse_named_query_colon:
  "CHR '':'' \<notin> set qn \<Longrightarrow>
   parse_named_query (qn @ CHR '':'' # rest)
     = (qn, Some (filter (\<lambda>p. length p > 0) (map trim (split_on CHR '','' rest))))"
proof -
  assume a: "CHR '':'' \<notin> set qn"
  have i: "indexOf CHR '':'' (qn @ CHR '':'' # rest) = int (length qn)"
    using a by (induction qn) (auto simp: Let_def)
  have n: "nat (int (length qn) + 1) = Suc (length qn)"
    by linarith
  have d: "drop (nat (int (length qn) + 1)) (qn @ CHR '':'' # rest) = rest"
    unfolding n by simp
  show ?thesis
    unfolding parse_named_query_def i Let_def d by simp
qed

text \<open>
  When no requested name that is missing from the record is a member of
  \<^verbatim>\<open>Object.prototype\<close>, and the values of the requested fields convert to strings, shell
  mode prints one line for each requested name that is a field, in the order of the
  request.
\<close>

lemma shell_lines_of_fields:
  assumes "\<forall>p\<in>set ps. map_of fs p = None \<longrightarrow> object_prototype_get p = JUndefined"
    and "\<forall>p\<in>set ps. \<forall>v. map_of fs p = Some v \<longrightarrow> v \<noteq> JUndefined \<and> js_String v \<noteq> None"
  shows "shell_lines bg pre (JObj fs) ps =
     (map (\<lambda>p. shell_line pre p (the (js_String (the (map_of fs p)))))
        (filter (\<lambda>p. map_of fs p \<noteq> None) ps),
      None)"
  using assms
  by (induction ps) (auto simp: js_get_def split: option.splits)

text \<open>
  C6 at the record \<^verbatim>\<open>{"a":"1","b":"2"}\<close>. The requested \<^verbatim>\<open>toString\<close> is not a field of
  the record, and shell mode prints a line for it: the test \<^verbatim>\<open>asJson[prop] !== undefined\<close>
  finds the function every object inherits. The requested \<^verbatim>\<open>c\<close> is skipped, and JSON
  mode has no key for either.
\<close>

theorem inherited_name_not_skipped:
  "named_output sample_env sample_args (Some [''a'', ''toString''])
     (JObj [(''a'', JStr ''1''), (''b'', JStr ''2'')])
     = ([Stdout (''A='' @ [dquote] @ ''1'' @ [dquote]),
         Stdout (''TOSTRING='' @ [dquote] @ ''function toString() { [native code] }'' @ [dquote])],
        None)
   \<and> named_output sample_env sample_args (Some [''a'', ''c''])
     (JObj [(''a'', JStr ''1''), (''b'', JStr ''2'')])
     = ([Stdout (''A='' @ [dquote] @ ''1'' @ [dquote])], None)
   \<and> named_output sample_env (sample_args\<lparr>flag_json := True\<rparr>) (Some [''a'', ''toString''])
     (JObj [(''a'', JStr ''1''), (''b'', JStr ''2'')])
     = ([Stdout (''{'' @ [dquote] @ ''a'' @ [dquote] @ '':'' @ [dquote] @ ''1'' @ [dquote] @ ''}'')],
        None)"
  by code_simp

text \<open>
  C7 at the record \<^verbatim>\<open>{"api-key":"k1","database-url":"d1"}\<close> with the export flag.
  The query \<^verbatim>\<open>q:api-key, constructor\<close> asks for \<^verbatim>\<open>api-key\<close> and \<^verbatim>\<open>constructor\<close>, in
  that order; only the first is in the record, and two lines are printed. Asking for
  the two fields of the record prints their two lines in the order of the request.
\<close>

theorem export_lines_inherited_name:
  "parse_named_query ''q:api-key, constructor'' = (''q'', Some [''api-key'', ''constructor''])
   \<and> named_output sample_env (sample_args\<lparr>flag_export := True\<rparr>)
        (Some [''api-key'', ''constructor''])
        (JObj [(''api-key'', JStr ''k1''), (''database-url'', JStr ''d1'')])
     = ([Stdout (''export API_KEY='' @ [dquote] @ ''k1'' @ [dquote]),
         Stdout (''export CONSTRUCTOR='' @ [dquote] @ ''function Object() { [native code] }''
                   @ [dquote])],
        None)
   \<and> named_output sample_env (sample_args\<lparr>flag_export := True\<rparr>)
        (Some [''api-key'', ''database-url''])
        (JObj [(''api-key'', JStr ''k1''), (''database-url'', JStr ''d1'')])
     = ([Stdout (''export API_KEY='' @ [dquote] @ ''k1'' @ [dquote]),
         Stdout (''export DATABASE_URL='' @ [dquote] @ ''d1'' @ [dquote])],
        None)"
  by code_simp

section \<open>Listing the schemas: at most three attempts\<close>

lemma loop_done: "schemas \<noteq> [] \<Longrightarrow> getSchemas_loop env n schemas r = (schemas, [])"
  by (subst getSchemas_loop.simps) simp

lemma loop_zero: "getSchemas_loop env n schemas 0 = (schemas, [])"
  by (subst getSchemas_loop.simps) simp

lemma loop_three:
  "getSchemas_loop env n [] 3 =
     (if no_schemas env n 0
      then (case getSchemas_loop env n [] 2 of
              (s, evs) \<Rightarrow> (s, ListSchemasCall # Sleep 2000 # evs))
      else (schemas_found env n 0, [ListSchemasCall]))"
  by (subst getSchemas_loop.simps)
    (auto simp: no_schemas_def schemas_found_def loop_done split: sum.splits)

lemma loop_two:
  "getSchemas_loop env n [] 2 =
     (if no_schemas env n 1
      then (case getSchemas_loop env n [] 1 of
              (s, evs) \<Rightarrow> (s, ListSchemasCall # Sleep 2000 # evs))
      else (schemas_found env n 1, [ListSchemasCall]))"
  by (subst getSchemas_loop.simps)
    (auto simp: no_schemas_def schemas_found_def loop_done split: sum.splits)

lemma loop_one:
  "getSchemas_loop env n [] (Suc 0) =
     (if no_schemas env n 2 then ([], [ListSchemasCall])
      else (schemas_found env n 2, [ListSchemasCall]))"
  by (subst getSchemas_loop.simps)
    (auto simp: no_schemas_def schemas_found_def loop_done loop_zero split: sum.splits)

lemma getSchemas_cases:
  "getSchemas env n =
     (if \<not> no_schemas env n 0 then (schemas_found env n 0, [ListSchemasCall])
      else if \<not> no_schemas env n 1
      then (schemas_found env n 1, [ListSchemasCall, Sleep 2000, ListSchemasCall])
      else if \<not> no_schemas env n 2
      then (schemas_found env n 2,
            [ListSchemasCall, Sleep 2000, ListSchemasCall, Sleep 2000, ListSchemasCall])
      else ([], [ListSchemasCall, Sleep 2000, ListSchemasCall, Sleep 2000, ListSchemasCall]))"
  by (simp add: getSchemas_def loop_three loop_two loop_one)

section \<open>Teardown events of the pipeline\<close>

lemma is_teardown_simps [simp]:
  "is_teardown (Stdout t) = False" "is_teardown (Stderr t) = False"
  "is_teardown (StderrError e) = False" "is_teardown (StderrRm e) = False"
  "is_teardown (NewSchemaSheets k c) = False" "is_teardown ListSchemasCall = False"
  "is_teardown (ListQueriesCall sid) = False" "is_teardown (ListCall sid q) = False"
  "is_teardown (Sleep ms) = False"
  "is_teardown BlindClose = True" "is_teardown SwarmDestroy = True"
  "is_teardown StoreClose = True" "is_teardown (Rm path) = True"
  by (simp_all add: is_teardown_def)

lemma teardown_events_Nil [simp]: "teardown_events [] = []"
  by (simp add: teardown_events_def)

lemma teardown_events_Cons [simp]:
  "teardown_events (ev # evs) = (if is_teardown ev then ev # teardown_events evs else teardown_events evs)"
  by (simp add: teardown_events_def)

lemma teardown_events_append [simp]:
  "teardown_events (xs @ ys) = teardown_events xs @ teardown_events ys"
  by (simp add: teardown_events_def)

lemma teardown_events_Stdout [simp]: "teardown_events (map Stdout ls) = []"
  by (induction ls) simp_all

lemma teardown_events_getSchemas: "teardown_events (snd (getSchemas env n)) = []"
  by (simp add: getSchemas_cases)

lemma teardown_events_named_output [simp]:
  "teardown_events (fst (named_output env a props asJson)) = []"
  by (auto simp: named_output_def split: option.splits sum.splits prod.splits)

lemma teardown_events_expression_output [simp]:
  "teardown_events (fst (expression_output env a r rs)) = []"
  by (auto simp: expression_output_def Let_def split: prod.splits)

lemma cleanup_ok:
  "teardown_throws env n s = None \<Longrightarrow>
   teardown_events (fst (cleanup env a n s)) = teardown_sequence env a
   \<and> snd (cleanup env a n s) = None"
  by (auto simp: cleanup_def teardown_sequence_def split: option.splits)

lemma cleanup_and_exit_ok:
  "teardown_throws env n InBody = None \<Longrightarrow>
   cleanup_and_exit env a n code = (fst (cleanup env a n InBody), Exited code)"
  using cleanup_ok [of env n InBody a]
  by (auto simp: cleanup_and_exit_def split: prod.splits option.splits)

lemma ends_well_after:
  "teardown_events evs = [] \<Longrightarrow> ends_well env a p \<Longrightarrow> ends_well env a (after evs p)"
  by (auto simp: ends_well_def after_def split: outcome.splits)

lemma ends_well_Threw: "teardown_events evs = [] \<Longrightarrow> ends_well env a (evs, Threw e)"
  by (simp add: ends_well_def)

lemma ends_well_cleanup_and_exit:
  "teardown_throws env n InBody = None \<Longrightarrow> ends_well env a (cleanup_and_exit env a n code)"
  using cleanup_ok [of env n InBody a]
  by (simp add: cleanup_and_exit_ok ends_well_def)

lemma ends_well_fail_exit:
  "teardown_throws env n InBody = None \<Longrightarrow> ends_well env a (fail_exit env a n msg)"
  unfolding fail_exit_def
  by (rule ends_well_after) (simp_all add: ends_well_cleanup_and_exit)

lemma ends_well_print_and_exit:
  assumes "teardown_throws env n InBody = None" and "teardown_events (fst out) = []"
  shows "ends_well env a (print_and_exit env a n out)"
proof (cases out)
  case (Pair evs r)
  show ?thesis
  proof (cases r)
    case None
    with Pair assms show ?thesis
      by (simp add: print_and_exit_def ends_well_after ends_well_cleanup_and_exit)
  next
    case (Some e)
    with Pair assms show ?thesis
      by (simp add: print_and_exit_def ends_well_Threw)
  qed
qed

lemma ends_well_named_branch:
  "teardown_throws env n InBody = None \<Longrightarrow> ends_well env a (named_branch env a n sid)"
  unfolding named_branch_def
  by (auto split: prod.splits sum.splits option.splits list.splits
      intro!: ends_well_after ends_well_Threw ends_well_fail_exit ends_well_print_and_exit)

lemma ends_well_expression_branch:
  "teardown_throws env n InBody = None \<Longrightarrow> ends_well env a (expression_branch env a n sid)"
  unfolding expression_branch_def
  by (auto split: prod.splits sum.splits option.splits list.splits
      intro!: ends_well_after ends_well_Threw ends_well_fail_exit ends_well_print_and_exit)

lemma ends_well_body:
  assumes "teardown_throws env n InBody = None"
  shows "ends_well env a (executeQuery_body env a n)"
proof (cases "getSchemas env n")
  case (Pair schemas evs)
  have quiet: "teardown_events evs = []"
    using teardown_events_getSchemas [of env n] Pair by simp
  show ?thesis
  proof (cases schemas)
    case Nil
    with Pair quiet assms show ?thesis
      by (simp add: executeQuery_body_def ends_well_after ends_well_fail_exit)
  next
    case (Cons s rest)
    with Pair quiet assms show ?thesis
      by (simp add: executeQuery_body_def ends_well_after ends_well_named_branch
          ends_well_expression_branch)
  qed
qed

lemma executeQuery_ok:
  assumes "teardown_throws env n InBody = None" and "teardown_throws env n InCatch = None"
  shows "teardown_events (fst (executeQuery env a n)) = teardown_sequence env a
    \<and> (\<exists>code. snd (executeQuery env a n) = Exited code)"
  using ends_well_body [OF assms(1), of a] cleanup_ok [OF assms(2), of a]
  by (auto simp: executeQuery_def ends_well_def after_def
      split: prod.splits outcome.splits option.splits)

lemma executeQuery_exits:
  assumes "teardown_throws env n InCatch = None"
  shows "\<exists>code. snd (executeQuery env a n) = Exited code"
  using cleanup_ok [OF assms, of a]
  by (auto simp: executeQuery_def after_def split: prod.splits outcome.splits option.splits)

section \<open>Removals of the pipeline\<close>

lemma is_Rm_simps [simp]:
  "is_Rm (Stdout t) = False" "is_Rm (Stderr t) = False"
  "is_Rm (StderrError e) = False" "is_Rm (StderrRm e) = False"
  "is_Rm (NewSchemaSheets k c) = False" "is_Rm ListSchemasCall = False"
  "is_Rm (ListQueriesCall sid) = False" "is_Rm (ListCall sid q) = False"
  "is_Rm (Sleep ms) = False"
  "is_Rm BlindClose = False" "is_Rm SwarmDestroy = False"
  "is_Rm StoreClose = False" "is_Rm (Rm path) = True"
  by (simp_all add: is_Rm_def)

lemma no_Rm_Stdout [simp]: "filter is_Rm (map Stdout ls) = []"
  by (induction ls) simp_all

lemma no_Rm_getSchemas: "filter is_Rm (snd (getSchemas env n)) = []"
  by (simp add: getSchemas_cases)

lemma no_Rm_named_output [simp]: "filter is_Rm (fst (named_output env a props asJson)) = []"
  by (auto simp: named_output_def split: option.splits sum.splits prod.splits)

lemma no_Rm_expression_output [simp]: "filter is_Rm (fst (expression_output env a r rs)) = []"
  by (auto simp: expression_output_def Let_def split: prod.splits)

lemma no_Rm_cleanup:
  "storage_given a \<Longrightarrow> filter is_Rm (fst (cleanup env a n s)) = []"
  by (auto simp: cleanup_def split: option.splits teardown_step.splits)

lemma no_Rm_after:
  "filter is_Rm evs = [] \<Longrightarrow> filter is_Rm (fst p) = [] \<Longrightarrow> filter is_Rm (fst (after evs p)) = []"
  by (simp add: after_def)

lemma no_Rm_cleanup_and_exit:
  "storage_given a \<Longrightarrow> filter is_Rm (fst (cleanup_and_exit env a n code)) = []"
  using no_Rm_cleanup [of a env n InBody]
  by (auto simp: cleanup_and_exit_def split: prod.splits option.splits)

lemma no_Rm_fail_exit:
  "storage_given a \<Longrightarrow> filter is_Rm (fst (fail_exit env a n msg)) = []"
  by (simp add: fail_exit_def no_Rm_after no_Rm_cleanup_and_exit)

lemma no_Rm_print_and_exit:
  "storage_given a \<Longrightarrow> filter is_Rm (fst out) = [] \<Longrightarrow>
   filter is_Rm (fst (print_and_exit env a n out)) = []"
  by (cases out) (auto simp: print_and_exit_def no_Rm_after no_Rm_cleanup_and_exit
      split: option.splits)

lemma no_Rm_named_branch:
  "storage_given a \<Longrightarrow> filter is_Rm (fst (named_branch env a n sid)) = []"
  unfolding named_branch_def
  by (auto split: prod.splits sum.splits option.splits list.splits
      intro!: no_Rm_after no_Rm_fail_exit no_Rm_print_and_exit)

lemma no_Rm_expression_branch:
  "storage_given a \<Longrightarrow> filter is_Rm (fst (expression_branch env a n sid)) = []"
  unfolding expression_branch_def
  by (auto split: prod.splits sum.splits option.splits list.splits
      intro!: no_Rm_after no_Rm_fail_exit no_Rm_print_and_exit)

lemma no_Rm_body:
  assumes "storage_given a"
  shows "filter is_Rm (fst (executeQuery_body env a n)) = []"
proof (cases "getSchemas env n")
  case (Pair schemas evs)
  have quiet: "filter is_Rm evs = []"
    using no_Rm_getSchemas [of env n] Pair by simp
  show ?thesis
  proof (cases schemas)
    case Nil
    with Pair quiet assms show ?thesis
      by (simp add: executeQuery_body_def no_Rm_after no_Rm_fail_exit)
  next
    case (Cons s rest)
    with Pair quiet assms show ?thesis
      by (simp add: executeQuery_body_def no_Rm_after no_Rm_named_branch
          no_Rm_expression_branch)
  qed
qed

lemma no_Rm_executeQuery:
  assumes "storage_given a"
  shows "filter is_Rm (fst (executeQuery env a n)) = []"
  using no_Rm_body [OF assms, of env n] no_Rm_cleanup [OF assms, of env n InCatch]
  by (auto simp: executeQuery_def after_def split: prod.splits outcome.splits option.splits)

lemma no_Rm_main:
  assumes "storage_given a"
  shows "filter is_Rm (fst (main env a)) = []"
  using no_Rm_executeQuery [OF assms, of env 0] no_Rm_executeQuery [OF assms, of env 1]
  by (auto simp: main_def after_def split: prod.splits sum.splits option.splits
      outcome.splits)

text \<open>
  How a run ends does not depend on whether removing the directory fails: a change of
  \<open>rm_result\<close> changes no outcome.
\<close>

lemma rm_cleanup_snd:
  "snd (cleanup (env\<lparr>rm_result := f\<rparr>) a n s) = snd (cleanup env a n s)"
  by (auto simp: cleanup_def split: option.splits teardown_step.splits)

lemma rm_cleanup_and_exit_snd:
  "snd (cleanup_and_exit (env\<lparr>rm_result := f\<rparr>) a n code) = snd (cleanup_and_exit env a n code)"
  using rm_cleanup_snd [where env = env and f = f and a = a and n = n and s = InBody]
  by (auto simp: cleanup_and_exit_def split: prod.splits option.splits)

lemma rm_fail_exit_snd:
  "snd (fail_exit (env\<lparr>rm_result := f\<rparr>) a n msg) = snd (fail_exit env a n msg)"
  by (simp add: fail_exit_def after_def rm_cleanup_and_exit_snd)

lemma rm_print_and_exit_snd:
  "snd (print_and_exit (env\<lparr>rm_result := f\<rparr>) a n out) = snd (print_and_exit env a n out)"
  by (cases out) (auto simp: print_and_exit_def after_def rm_cleanup_and_exit_snd
      split: option.splits)

lemma rm_console_text: "console_text (env\<lparr>rm_result := f\<rparr>) v = console_text env v"
  by (cases v) (simp_all add: console_text_def)

lemma rm_named_output:
  "named_output (env\<lparr>rm_result := f\<rparr>) a props asJson = named_output env a props asJson"
  by (simp add: named_output_def rm_console_text split: option.splits sum.splits)

lemma rm_expression_output:
  "expression_output (env\<lparr>rm_result := f\<rparr>) a r rs = expression_output env a r rs"
  by (simp add: expression_output_def rm_console_text Let_def)

lemma rm_named_branch_snd:
  "snd (named_branch (env\<lparr>rm_result := f\<rparr>) a n sid) = snd (named_branch env a n sid)"
  by (auto simp: named_branch_def after_def rm_fail_exit_snd rm_print_and_exit_snd
      rm_named_output split: prod.splits sum.splits option.splits list.splits)

lemma rm_expression_branch_snd:
  "snd (expression_branch (env\<lparr>rm_result := f\<rparr>) a n sid) = snd (expression_branch env a n sid)"
  by (auto simp: expression_branch_def after_def rm_fail_exit_snd rm_print_and_exit_snd
      rm_expression_output split: prod.splits sum.splits option.splits list.splits)

lemma rm_getSchemas: "getSchemas (env\<lparr>rm_result := f\<rparr>) n = getSchemas env n"
  by (simp add: getSchemas_cases no_schemas_def schemas_found_def)

lemma rm_body_snd:
  "snd (executeQuery_body (env\<lparr>rm_result := f\<rparr>) a n) = snd (executeQuery_body env a n)"
  by (auto simp: executeQuery_body_def after_def rm_getSchemas rm_fail_exit_snd
      rm_named_branch_snd rm_expression_branch_snd split: prod.splits list.splits)

lemma rm_executeQuery_snd:
  "snd (executeQuery (env\<lparr>rm_result := f\<rparr>) a n) = snd (executeQuery env a n)"
  using rm_body_snd [where env = env and f = f and a = a and n = n]
    rm_cleanup_snd [where env = env and f = f and a = a and n = n and s = InCatch]
  by (auto simp: executeQuery_def after_def split: prod.splits outcome.splits option.splits)

lemma rm_main_snd:
  "snd (main (env\<lparr>rm_result := f\<rparr>) a) = snd (main env a)"
  using rm_executeQuery_snd [where env = env and f = f and a = a and n = 0]
    rm_executeQuery_snd [where env = env and f = f and a = a and n = 1]
  by (auto simp: main_def after_def decode_room_link_def
      split: prod.splits sum.splits option.splits outcome.splits)

section \<open>The run as a whole\<close>

text \<open>
  When the \<^verbatim>\<open>cleanup\<close> of the \<^verbatim>\<open>catch\<close> does not throw, the first \<^verbatim>\<open>executeQuery\<close>
  ends the process: the handler of lines 263-270 does not run, and there is no pause of
  200 ms and no second attempt.
\<close>

lemma main_single_attempt:
  assumes "decode_room_link env (roomLink a) = Inr (key, secret)"
    and "sheets_ready env = None" and "swarm_join env = None"
    and "teardown_throws env 0 InCatch = None"
  shows "\<exists>code. main env a = (NewSchemaSheets key secret # fst (executeQuery env a 0), Exit code)"
  using assms executeQuery_exits [OF assms(4), of a]
  by (auto simp: main_def after_def split: prod.splits outcome.splits)

text \<open>
  C5. \<^verbatim>\<open>getSchemas\<close> calls \<^verbatim>\<open>listSchemas\<close> at most three times, with a pause of
  2000 ms between two consecutive calls and none after the last. It goes on only after a
  call that threw or returned nothing, and returns the first non-empty list it gets.
  When all three calls of the first attempt give nothing and \<^verbatim>\<open>cleanup\<close> does not
  throw, the process prints \<^verbatim>\<open>No schemas found\<close>, runs \<^verbatim>\<open>cleanup\<close> and exits with
  code 1: its run holds three calls and no fourth.
\<close>

theorem schema_listing_three_attempts:
  "getSchemas env n =
     (if \<not> no_schemas env n 0 then (schemas_found env n 0, [ListSchemasCall])
      else if \<not> no_schemas env n 1
      then (schemas_found env n 1, [ListSchemasCall, Sleep 2000, ListSchemasCall])
      else if \<not> no_schemas env n 2
      then (schemas_found env n 2,
            [ListSchemasCall, Sleep 2000, ListSchemasCall, Sleep 2000, ListSchemasCall])
      else ([], [ListSchemasCall, Sleep 2000, ListSchemasCall, Sleep 2000, ListSchemasCall]))
   \<and> (no_schemas env 0 0 \<and> no_schemas env 0 1 \<and> no_schemas env 0 2
        \<and> teardown_throws env 0 InBody = None
        \<and> decode_room_link env (roomLink a) = Inr (key, secret)
        \<and> sheets_ready env = None \<and> swarm_join env = None
      \<longrightarrow> main env a =
            ([NewSchemaSheets key secret, ListSchemasCall, Sleep 2000, ListSchemasCall,
              Sleep 2000, ListSchemasCall, Stderr ''No schemas found'']
             @ fst (cleanup env a 0 InBody),
             Exit 1))"
proof -
  have "main env a =
      ([NewSchemaSheets key secret, ListSchemasCall, Sleep 2000, ListSchemasCall,
        Sleep 2000, ListSchemasCall, Stderr ''No schemas found'']
       @ fst (cleanup env a 0 InBody), Exit 1)"
    if "no_schemas env 0 0" "no_schemas env 0 1" "no_schemas env 0 2"
      and ok: "teardown_throws env 0 InBody = None"
      and "decode_room_link env (roomLink a) = Inr (key, secret)"
      and "sheets_ready env = None" "swarm_join env = None"
  proof -
    have "executeQuery_body env a 0 =
        ([ListSchemasCall, Sleep 2000, ListSchemasCall, Sleep 2000, ListSchemasCall,
          Stderr ''No schemas found''] @ fst (cleanup env a 0 InBody), Exited 1)"
      using that(1-3)
      by (simp add: executeQuery_body_def getSchemas_cases fail_exit_def after_def
          cleanup_and_exit_ok [OF ok])
    then show ?thesis
      using that(5-7) by (simp add: main_def executeQuery_def after_def)
  qed
  then show ?thesis
    using getSchemas_cases [of env n] by blast
qed

theorem schema_listing_three_attempts_witness:
  "main (sample_env\<lparr>listSchemas := (\<lambda>attempt k. if k = 1 then Inl (Thrown ''offline'') else Inr [])\<rparr>)
     sample_args
   = ([NewSchemaSheets (replicate 32 1) (replicate 32 2), ListSchemasCall, Sleep 2000,
       ListSchemasCall, Sleep 2000, ListSchemasCall, Stderr ''No schemas found'',
       BlindClose, SwarmDestroy, StoreClose, Rm ''/tmp/t''],
      Exit 1)"
proof -
  let ?env = "sample_env\<lparr>listSchemas := (\<lambda>attempt k. if k = 1 then Inl (Thrown ''offline'') else Inr [])\<rparr>"
  have h: "no_schemas ?env 0 0" "no_schemas ?env 0 1" "no_schemas ?env 0 2"
    "teardown_throws ?env 0 InBody = None"
    "decode_room_link ?env (roomLink sample_args) = Inr (replicate 32 1, replicate 32 2)"
    "sheets_ready ?env = None" "swarm_join ?env = None"
    by (simp_all add: no_schemas_def sample_env_def decode_room_link_def)
  have c: "fst (cleanup ?env sample_args 0 InBody) = [BlindClose, SwarmDestroy, StoreClose, Rm ''/tmp/t'']"
    by (simp add: cleanup_def sample_env_def sample_args_def storage_given_def storagePath_def)
  show ?thesis
    using schema_listing_three_attempts [where env = ?env and a = sample_args
        and key = "replicate 32 1" and secret = "replicate 32 2"] h c
    by simp
qed

text \<open>
  C1 at a store whose \<^verbatim>\<open>listQueries\<close> call fails. The \<^verbatim>\<open>catch\<close> inside
  \<^verbatim>\<open>executeQuery\<close> logs the error, runs \<^verbatim>\<open>cleanup\<close> and exits with code 1. The run has
  one attempt, no pause of 200 ms and no retry.
\<close>

theorem pipeline_failure_exits_without_retry:
  "main (sample_env\<lparr>listQueries := (\<lambda>attempt sid. Inl (Thrown ''not synced''))\<rparr>) sample_args
   = ([NewSchemaSheets (replicate 32 1) (replicate 32 2), ListSchemasCall, ListQueriesCall ''s'',
       StderrError (Thrown ''not synced''), BlindClose, SwarmDestroy, StoreClose, Rm ''/tmp/t''],
      Exit 1)"
  by code_simp

text \<open>
  The handler of lines 263-270 runs when the \<^verbatim>\<open>cleanup\<close> of the \<^verbatim>\<open>catch\<close> itself
  throws: then the process does not exit, the promise is rejected, and after 200 ms the
  pipeline runs a second time.
\<close>

lemma retry_after_failed_cleanup:
  "main (sample_env\<lparr>listQueries := (\<lambda>attempt sid. Inl (Thrown ''not synced'')),
                    teardown_throws := (\<lambda>attempt site.
                       if attempt = 0 then Some (AtStoreClose, Thrown ''closed'') else None)\<rparr>)
     sample_args
   = ([NewSchemaSheets (replicate 32 1) (replicate 32 2), ListSchemasCall, ListQueriesCall ''s'',
       StderrError (Thrown ''not synced''), BlindClose, SwarmDestroy, StoreClose,
       Sleep 200,
       ListSchemasCall, ListQueriesCall ''s'', StderrError (Thrown ''not synced''),
       BlindClose, SwarmDestroy, StoreClose, Rm ''/tmp/t''],
      Exit 1)"
  by code_simp

section \<open>Teardown runs\<close>

text \<open>
  C4, as the code has it. When the locator decodes, the session becomes ready and joins,
  and the \<^verbatim>\<open>cleanup\<close> calls of the first attempt do not throw, the run goes through the
  teardown sequence (close the mirroring helper, destroy the swarm, close the store,
  remove the directory when no storage was given) exactly once and ends with
  \<^verbatim>\<open>process.exit\<close>. \<^verbatim>\<open>cleanup\<close> has no guard: a second call whose calls do not throw
  goes through the whole sequence again, without an error.
\<close>

theorem teardown_once_after_pipeline:
  assumes "decode_room_link env (roomLink a) = Inr (key, secret)"
    and "sheets_ready env = None" and "swarm_join env = None"
    and "teardown_throws env 0 InBody = None" and "teardown_throws env 0 InCatch = None"
    and "teardown_throws env n s = None" and "teardown_throws env m t = None"
  shows "teardown_events (fst (main env a)) = teardown_sequence env a
    \<and> (\<exists>code. snd (main env a) = Exit code)
    \<and> teardown_events (fst (cleanup env a n s) @ fst (cleanup env a m t))
        = teardown_sequence env a @ teardown_sequence env a
    \<and> snd (cleanup env a m t) = None"
proof -
  obtain code where "main env a = (NewSchemaSheets key secret # fst (executeQuery env a 0), Exit code)"
    using main_single_attempt [OF assms(1-3,5)] by blast
  then show ?thesis
    using executeQuery_ok [OF assms(4,5), of a] cleanup_ok [OF assms(6), of a]
      cleanup_ok [OF assms(7), of a]
    by simp
qed

theorem teardown_once_after_pipeline_witness:
  "teardown_events (fst (main sample_env sample_args))
     = [BlindClose, SwarmDestroy, StoreClose, Rm ''/tmp/t'']
   \<and> teardown_events (fst (cleanup sample_env sample_args 0 InBody)
        @ fst (cleanup sample_env sample_args 0 InCatch))
     = [BlindClose, SwarmDestroy, StoreClose, Rm ''/tmp/t'',
        BlindClose, SwarmDestroy, StoreClose, Rm ''/tmp/t'']"
proof -
  have h: "decode_room_link sample_env (roomLink sample_args) = Inr (replicate 32 1, replicate 32 2)"
    "sheets_ready sample_env = None" "swarm_join sample_env = None"
    "teardown_throws sample_env 0 InBody = None" "teardown_throws sample_env 0 InCatch = None"
    by (simp_all add: sample_env_def decode_room_link_def)
  have s: "teardown_sequence sample_env sample_args = [BlindClose, SwarmDestroy, StoreClose, Rm ''/tmp/t'']"
    by (simp add: teardown_sequence_def sample_env_def sample_args_def storage_given_def
        storagePath_def)
  show ?thesis
    using teardown_once_after_pipeline [OF h(1-5) h(4) h(5)] s
    by simp
qed

text \<open>
  C4 as stated fails. When \<^verbatim>\<open>z32.decode\<close> throws, the process ends on the uncaught
  exception and no teardown runs. When \<^verbatim>\<open>store.close()\<close> throws in the \<^verbatim>\<open>cleanup\<close> of
  the first attempt, the retry runs and the store is closed twice.
\<close>

theorem teardown_skipped_or_repeated:
  "teardown_events
     (fst (main (sample_env\<lparr>z32_decode := (\<lambda>link. Inl (Thrown ''Invalid character''))\<rparr>)
             sample_args)) = []
   \<and> snd (main (sample_env\<lparr>z32_decode := (\<lambda>link. Inl (Thrown ''Invalid character''))\<rparr>)
             sample_args) = Uncaught (Thrown ''Invalid character'')
   \<and> teardown_events
       (fst (main (sample_env\<lparr>listQueries := (\<lambda>attempt sid. Inl (Thrown ''not synced'')),
                     teardown_throws := (\<lambda>attempt site.
                        if attempt = 0 then Some (AtStoreClose, Thrown ''closed'') else None)\<rparr>)
               sample_args))
     = [BlindClose, SwarmDestroy, StoreClose, BlindClose, SwarmDestroy, StoreClose, Rm ''/tmp/t'']"
  by code_simp

section \<open>Removing the storage directory\<close>

lemma filter_Rm_teardown: "filter is_Rm (teardown_events tr) = filter is_Rm tr"
  by (induction tr) (auto simp: is_Rm_def is_teardown_def split: event.splits)

text \<open>
  C9, as the code has it. With a storage path given, no run removes a directory,
  whatever happens. Without one, a run that reaches the pipeline and whose \<^verbatim>\<open>cleanup\<close>
  calls do not throw removes the generated directory exactly once. Whether the removal
  fails changes nothing in how the process ends, and a failed removal is logged.
\<close>

theorem storage_removal_policy:
  "(storage_given a \<longrightarrow> filter is_Rm (fst (main env a)) = [])
   \<and> (\<not> storage_given a \<and> decode_room_link env (roomLink a) = Inr (key, secret)
        \<and> sheets_ready env = None \<and> swarm_join env = None
        \<and> teardown_throws env 0 InBody = None \<and> teardown_throws env 0 InCatch = None
      \<longrightarrow> filter is_Rm (fst (main env a)) = [Rm (temp_path env)])
   \<and> snd (main (env\<lparr>rm_result := f\<rparr>) a) = snd (main env a)
   \<and> (\<not> storage_given a \<and> teardown_throws env n s = None \<and> rm_result env n s = Some e
      \<longrightarrow> cleanup env a n s
            = ([BlindClose, SwarmDestroy, StoreClose, Rm (temp_path env), StderrRm e], None))"
proof -
  have once: "filter is_Rm (fst (main env a)) = [Rm (temp_path env)]"
    if "\<not> storage_given a" and reach: "decode_room_link env (roomLink a) = Inr (key, secret)"
      "sheets_ready env = None" "swarm_join env = None"
      and quiet: "teardown_throws env 0 InBody = None" "teardown_throws env 0 InCatch = None"
  proof -
    obtain code where "main env a = (NewSchemaSheets key secret # fst (executeQuery env a 0), Exit code)"
      using main_single_attempt [OF reach quiet(2)] by blast
    then have "teardown_events (fst (main env a)) = teardown_sequence env a"
      using executeQuery_ok [OF quiet, of a] by simp
    then have "filter is_Rm (fst (main env a)) = filter is_Rm (teardown_sequence env a)"
      using filter_Rm_teardown [of "fst (main env a)"] by simp
    with that(1) show ?thesis
      by (auto simp: teardown_sequence_def storagePath_def storage_given_def split: option.splits)
  qed
  have logged: "cleanup env a n s
      = ([BlindClose, SwarmDestroy, StoreClose, Rm (temp_path env), StderrRm e], None)"
    if "\<not> storage_given a" "teardown_throws env n s = None" "rm_result env n s = Some e"
    using that
    by (auto simp: cleanup_def storagePath_def storage_given_def split: option.splits)
  show ?thesis
    using no_Rm_main [of a env] once rm_main_snd [where env = env and f = f and a = a] logged
    by blast
qed

theorem storage_removal_policy_witness:
  "filter is_Rm (fst (main sample_env (sample_args\<lparr>storage := Some ''cache''\<rparr>))) = []
   \<and> filter is_Rm (fst (main sample_env sample_args)) = [Rm ''/tmp/t'']
   \<and> snd (main (sample_env\<lparr>rm_result := (\<lambda>attempt site. Some (Thrown ''EBUSY''))\<rparr>) sample_args)
       = snd (main sample_env sample_args)
   \<and> cleanup (sample_env\<lparr>rm_result := (\<lambda>attempt site. Some (Thrown ''EBUSY''))\<rparr>) sample_args 0 InBody
       = ([BlindClose, SwarmDestroy, StoreClose, Rm ''/tmp/t'', StderrRm (Thrown ''EBUSY'')], None)"
proof -
  let ?busy = "sample_env\<lparr>rm_result := (\<lambda>attempt site. Some (Thrown ''EBUSY''))\<rparr>"
  have g: "storage_given (sample_args\<lparr>storage := Some ''cache''\<rparr>)" "\<not> storage_given sample_args"
    by (simp_all add: storage_given_def sample_args_def)
  have h: "decode_room_link sample_env (roomLink sample_args) = Inr (replicate 32 1, replicate 32 2)"
    "sheets_ready sample_env = None" "swarm_join sample_env = None"
    "teardown_throws sample_env 0 InBody = None" "teardown_throws sample_env 0 InCatch = None"
    "temp_path sample_env = ''/tmp/t''"
    by (simp_all add: sample_env_def decode_room_link_def)
  have b: "teardown_throws ?busy 0 InBody = None" "rm_result ?busy 0 InBody = Some (Thrown ''EBUSY'')"
    "temp_path ?busy = ''/tmp/t''"
    by (simp_all add: sample_env_def)
  show ?thesis
    using storage_removal_policy [where a = "sample_args\<lparr>storage := Some ''cache''\<rparr>"
        and env = sample_env]
      storage_removal_policy [where a = sample_args and env = sample_env
        and key = "replicate 32 1" and secret = "replicate 32 2"
        and f = "\<lambda>attempt site. Some (Thrown ''EBUSY'')"]
      storage_removal_policy [where a = sample_args and env = ?busy and n = 0 and s = InBody
        and e = "Thrown ''EBUSY''"]
      g h b
    by simp
qed

text \<open>
  C9 as stated fails: when \<^verbatim>\<open>sheets.ready()\<close> is rejected, the process ends on the
  unhandled rejection; no storage path was given, and the generated directory is not
  removed.
\<close>

theorem storage_left_after_setup_failure:
  "main (sample_env\<lparr>sheets_ready := Some (Thrown ''not ready'')\<rparr>) sample_args
     = ([NewSchemaSheets (replicate 32 1) (replicate 32 2)], Uncaught (Thrown ''not ready''))
   \<and> storage sample_args = None"
  by code_simp

end
